theory Spec2Isabelle
  imports Complex_Main
begin

section \<open>HRMS backend: attendance tracker and leave workflow\<close>

text \<open>
  A shallow embedding of \<^verbatim>\<open>src/models/Leave.js\<close>, \<^verbatim>\<open>src/models/Attendance.js\<close>,
  \<^verbatim>\<open>src/models/Employee.js\<close>, \<^verbatim>\<open>src/controllers/leaveController.js\<close> and
  \<^verbatim>\<open>src/controllers/attendanceController.js\<close>.

  Conventions of the embedding:
  \<^item> an ObjectId is a natural number; a JavaScript \<^verbatim>\<open>Date\<close> is its time value, an integer
    number of milliseconds since the epoch (a \<^verbatim>\<open>Date\<close> object is always truthy);
  \<^item> a JavaScript \<^verbatim>\<open>Number\<close> is a real number and the arithmetic on it is exact: the
    timestamps, differences and counts that occur are integers, which a double holds
    exactly, and the rounding that doubles apply to a quotient or a product that they
    cannot hold is not modelled;
  \<^item> a collection is the list of its documents in insertion order; \<^verbatim>\<open>findOne\<close> and
    \<^verbatim>\<open>findById\<close> return the first document that matches;
  \<^item> a handler takes the store and the parts of the request it reads, and returns the
    response together with the store it leaves behind; \<^verbatim>\<open>new Date()\<close> is the parameter
    \<open>now\<close>, and the offset of the server's local time from UTC (in milliseconds, taken as
    constant over the days concerned) is the parameter \<open>tz\<close>;
  \<^item> \<^verbatim>\<open>populate\<close> only decorates the response and is left out: the response carries the
    stored document;
  \<^item> the errors of the storage layer that are modelled are the validation errors of the
    leave schema and the duplicate-key error of the unique attendance index; any other
    fault of the database (the catch-all 500 of every handler) is not;
  \<^item> the leave routes sit behind \<^verbatim>\<open>protect\<close>, so their handlers always have \<^verbatim>\<open>req.user\<close>; the
    attendance handlers check it themselves;
  \<^item> schema paths that no handler below reads or writes (timestamps, attachments,
    locations, names, salary and so on) are left out of the records.
\<close>

type_synonym objid = nat
type_synonym date = int
type_synonym number = real

definition MS_PER_DAY :: int where
  "MS_PER_DAY = 1000 * 60 * 60 * 24"

definition MS_PER_HOUR :: int where
  "MS_PER_HOUR = 1000 * 60 * 60"

definition Math_ceil :: "number \<Rightarrow> int" where
  "Math_ceil x = \<lceil>x\<rceil>"

definition Math_round :: "number \<Rightarrow> int" where
  \<comment> \<open>\<^verbatim>\<open>Math.round\<close>: the nearest integer, a tie going up.\<close>
  "Math_round x = \<lfloor>x + 1 / 2\<rfloor>"

subsection \<open>Responses\<close>

datatype 'a response =
    Success nat 'a        \<comment> \<open>\<^verbatim>\<open>res.status(c).json({ success: true, data })\<close>\<close>
  | SuccessMessage nat string  \<comment> \<open>\<^verbatim>\<open>res.status(c).json({ success: true, message })\<close>\<close>
  | Failure nat string    \<comment> \<open>\<^verbatim>\<open>res.status(c).json({ success: false, message })\<close>\<close>

fun http_status :: "'a response \<Rightarrow> nat" where
  "http_status (Success c _) = c"
| "http_status (SuccessMessage c _) = c"
| "http_status (Failure c _) = c"

datatype store_error =
    DuplicateKey              \<comment> \<open>the driver's error with \<^verbatim>\<open>code === 11000\<close>\<close>
  | ValidationError string    \<comment> \<open>a Mongoose validation error, with its message\<close>



fun new_ObjectId :: "objid list \<Rightarrow> objid" where
  \<comment> \<open>A fresh identifier: one that no document of the collection has.\<close>
  "new_ObjectId ids = Suc (fold max ids 0)"

subsection \<open>Employees (\<^verbatim>\<open>models/Employee.js\<close>)\<close>

datatype employee_status = Active | Inactive | Terminated | OnLeave

record leaveBalance =
  annual :: number
  sick :: number
  personal :: number
  unpaid :: number

record employee =
  e_id :: objid
  e_email :: string
  e_status :: employee_status
  e_leaveBalance :: "leaveBalance option"

fun leaveBalance_get :: "leaveBalance \<Rightarrow> string \<Rightarrow> number option" where
  \<comment> \<open>\<^verbatim>\<open>employee.leaveBalance[key]\<close>; \<open>None\<close> is \<^verbatim>\<open>undefined\<close>.\<close>
  "leaveBalance_get b k =
     (if k = ''annual'' then Some (annual b)
      else if k = ''sick'' then Some (sick b)
      else if k = ''personal'' then Some (personal b)
      else if k = ''unpaid'' then Some (unpaid b)
      else None)"

fun leaveBalance_set :: "leaveBalance \<Rightarrow> string \<Rightarrow> number \<Rightarrow> leaveBalance" where
  "leaveBalance_set b k v =
     (if k = ''annual'' then b\<lparr>annual := v\<rparr>
      else if k = ''sick'' then b\<lparr>sick := v\<rparr>
      else if k = ''personal'' then b\<lparr>personal := v\<rparr>
      else if k = ''unpaid'' then b\<lparr>unpaid := v\<rparr>
      else b)"

subsection \<open>Leave requests (\<^verbatim>\<open>models/Leave.js\<close>)\<close>

datatype leave_status = Pending | Approved | Rejected | Cancelled

datatype leave_type = Annual | Sick | Personal | Unpaid | Maternity | Paternity

text \<open>
  The stored document. \<^verbatim>\<open>employeeId\<close>, \<^verbatim>\<open>leaveType\<close>, \<^verbatim>\<open>startDate\<close>, \<^verbatim>\<open>endDate\<close>,
  \<^verbatim>\<open>totalDays\<close> and \<^verbatim>\<open>reason\<close> are required paths of the schema. The schema has no path
  \<^verbatim>\<open>approverComments\<close>.
\<close>

record leave =
  l_id :: objid
  l_employeeId :: objid
  l_leaveType :: leave_type
  l_startDate :: date
  l_endDate :: date
  l_totalDays :: number
  l_reason :: string
  l_status :: leave_status
  l_approvedBy :: "objid option"
  l_approvedAt :: "date option"
  l_rejectionReason :: "string option"

definition leave_pre_save :: "leave \<Rightarrow> leave" where
  \<comment> \<open>\<^verbatim>\<open>leaveSchema.pre('save')\<close>. Validation runs before the hook and both dates are
      required, so the guard \<^verbatim>\<open>this.startDate && this.endDate\<close> holds whenever it runs.\<close>
  "leave_pre_save l =
     (let diffTime = \<bar>l_endDate l - l_startDate l\<bar>
      in l\<lparr>l_totalDays := of_int (Math_ceil (of_int diffTime / of_int MS_PER_DAY) + 1)\<rparr>)"

subsection \<open>Attendance records (\<^verbatim>\<open>models/Attendance.js\<close>)\<close>

datatype attendance_status = Present | Absent | HalfDay | OnLeaveDay | Holiday | Weekend

record attendance =
  a_id :: objid
  a_employeeId :: objid
  a_date :: date
  a_clockIn :: "date option"
  a_clockOut :: "date option"
  a_breakStart :: "date option"
  a_breakEnd :: "date option"
  a_totalWorkHours :: number
  a_status :: attendance_status
  a_notes :: "string option"

definition attendance_pre_save :: "attendance \<Rightarrow> attendance" where
  \<comment> \<open>\<^verbatim>\<open>attendanceSchema.pre('save')\<close>\<close>
  "attendance_pre_save a =
     (case (a_clockIn a, a_clockOut a) of
        (Some ci, Some co) \<Rightarrow>
          (let workMs = co - ci;
               workMs = (case (a_breakStart a, a_breakEnd a) of
                           (Some bs, Some be) \<Rightarrow> workMs - (be - bs)
                         | _ \<Rightarrow> workMs)
           in a\<lparr>a_totalWorkHours :=
                  of_int (Math_round ((of_int workMs / of_int MS_PER_HOUR) * 100)) / 100\<rparr>)
      | _ \<Rightarrow> a)"

subsection \<open>The store and its queries\<close>

record store =
  employees :: "employee list"
  leaves :: "leave list"
  attendances :: "attendance list"

fun replace_first :: "('a \<Rightarrow> bool) \<Rightarrow> 'a \<Rightarrow> 'a list \<Rightarrow> 'a list" where
  \<comment> \<open>\<^verbatim>\<open>updateOne(filter, doc)\<close>: the first matching document is replaced.\<close>
  "replace_first p y [] = []"
| "replace_first p y (x # xs) = (if p x then y # xs else x # replace_first p y xs)"

fun remove_first :: "('a \<Rightarrow> bool) \<Rightarrow> 'a list \<Rightarrow> 'a list" where
  \<comment> \<open>\<^verbatim>\<open>deleteOne(filter)\<close>: the first matching document is removed.\<close>
  "remove_first p [] = []"
| "remove_first p (x # xs) = (if p x then xs else x # remove_first p xs)"

definition Employee_findOne_email :: "employee list \<Rightarrow> string \<Rightarrow> employee option" where
  \<comment> \<open>\<^verbatim>\<open>Employee.findOne({ email })\<close>\<close>
  "Employee_findOne_email es em = find (\<lambda>e. e_email e = em) es"

definition Employee_findById :: "employee list \<Rightarrow> objid \<Rightarrow> employee option" where
  "Employee_findById es i = find (\<lambda>e. e_id e = i) es"

definition Employee_save :: "employee list \<Rightarrow> employee \<Rightarrow> employee list" where
  "Employee_save es e = replace_first (\<lambda>x. e_id x = e_id e) e es"

definition Leave_findById :: "leave list \<Rightarrow> objid \<Rightarrow> leave option" where
  "Leave_findById ls i = find (\<lambda>l. l_id l = i) ls"

definition Leave_save :: "leave list \<Rightarrow> leave \<Rightarrow> leave \<times> leave list" where
  \<comment> \<open>\<^verbatim>\<open>leave.save()\<close> on a document read from the store: the pre-save hook changes the
      document in memory, then it is written. The required paths are present, so
      validation passes.\<close>
  "Leave_save ls l =
     (let doc = leave_pre_save l in (doc, replace_first (\<lambda>x. l_id x = l_id doc) doc ls))"

definition Leave_deleteOne :: "leave list \<Rightarrow> leave \<Rightarrow> leave list" where
  "Leave_deleteOne ls l = remove_first (\<lambda>x. l_id x = l_id l) ls"

definition Attendance_findById :: "attendance list \<Rightarrow> objid \<Rightarrow> attendance option" where
  "Attendance_findById as i = find (\<lambda>a. a_id a = i) as"

definition Attendance_findOne_day ::
  "attendance list \<Rightarrow> objid \<Rightarrow> date \<Rightarrow> date \<Rightarrow> attendance option" where
  \<comment> \<open>\<^verbatim>\<open>Attendance.findOne({ employeeId, date: { $gte: today, $lt: tomorrow } })\<close>\<close>
  "Attendance_findOne_day as eid today tomorrow =
     find (\<lambda>a. a_employeeId a = eid \<and> today \<le> a_date a \<and> a_date a < tomorrow) as"

definition Attendance_save ::
  "attendance list \<Rightarrow> attendance \<Rightarrow> attendance \<times> attendance list" where
  \<comment> \<open>\<^verbatim>\<open>attendance.save()\<close> on a document read from the store: the pre-save hook changes
      the document in memory, then it is written.\<close>
  "Attendance_save as a =
     (let doc = attendance_pre_save a in (doc, replace_first (\<lambda>x. a_id x = a_id doc) doc as))"


subsection \<open>The principal and the employee it acts as\<close>

datatype employee_ref =
    Ref objid             \<comment> \<open>\<^verbatim>\<open>req.user.employeeId\<close> as a bare ObjectId\<close>
  | Populated employee    \<comment> \<open>\<^verbatim>\<open>req.user.employeeId\<close> populated with the employee document\<close>

fun ref_id :: "employee_ref \<Rightarrow> objid" where
  "ref_id (Ref i) = i"
| "ref_id (Populated e) = e_id e"

record user =
  u_role :: string
  u_email :: string
  u_employeeId :: "employee_ref option"

definition resolve_employeeId :: "employee list \<Rightarrow> user \<Rightarrow> objid option \<Rightarrow> objid option" where
  \<comment> \<open>The chain at the head of \<^verbatim>\<open>clockIn\<close>, \<^verbatim>\<open>clockOut\<close> and \<^verbatim>\<open>createLeave\<close>:
      \<^verbatim>\<open>req.body.employeeId\<close>, else \<^verbatim>\<open>req.user.employeeId\<close>, else the employee with the
      user's email.\<close>
  "resolve_employeeId es u body_employeeId =
     (case body_employeeId of
        Some i \<Rightarrow> Some i
      | None \<Rightarrow>
          (case u_employeeId u of
             Some r \<Rightarrow> Some (ref_id r)
           | None \<Rightarrow> map_option e_id (Employee_findOne_email es (u_email u))))"

subsection \<open>Attendance tracker (\<^verbatim>\<open>controllers/attendanceController.js\<close>)\<close>

definition today_utc :: "date \<Rightarrow> int \<Rightarrow> date" where
  \<comment> \<open>\<^verbatim>\<open>new Date(Date.UTC(now.getFullYear(), now.getMonth(), now.getDate()))\<close>: midnight UTC
      of the calendar date that \<open>now\<close> has in the server's local time.\<close>
  "today_utc now tz = ((now + tz) div MS_PER_DAY) * MS_PER_DAY"

definition tomorrow_utc :: "date \<Rightarrow> date" where
  \<comment> \<open>\<^verbatim>\<open>tomorrow.setUTCDate(tomorrow.getUTCDate() + 1)\<close>\<close>
  "tomorrow_utc today = today + MS_PER_DAY"



definition clockOut ::
  "store \<Rightarrow> user option \<Rightarrow> objid option \<Rightarrow> date \<Rightarrow> int
     \<Rightarrow> attendance option response \<times> store" where
  \<comment> \<open>\<^verbatim>\<open>exports.clockOut\<close>\<close>
  "clockOut s req_user body_employeeId now tz =
     (case req_user of
        None \<Rightarrow> (Failure 401 ''Not authenticated'', s)
      | Some u \<Rightarrow>
          (case resolve_employeeId (employees s) u body_employeeId of
             None \<Rightarrow>
               (Failure 400 ''No employee profile linked to your account. Please contact HR to link your employee profile.'', s)
           | Some employeeId \<Rightarrow>
               (let today = today_utc now tz;
                    tomorrow = tomorrow_utc today
                in case Attendance_findOne_day (attendances s) employeeId today tomorrow of
                     None \<Rightarrow> (Failure 400 ''No clock-in record found for today'', s)
                   | Some attendance \<Rightarrow>
                       (if a_clockOut attendance \<noteq> None
                        then (Failure 400 ''Already clocked out today'', s)
                        else
                          (case Attendance_save (attendances s)
                                  (attendance\<lparr>a_clockOut := Some now\<rparr>) of
                             (attendance, as') \<Rightarrow>
                               (Success 200 (Attendance_findById as' (a_id attendance)),
                                s\<lparr>attendances := as'\<rparr>))))))"






subsection \<open>Leave workflow (\<^verbatim>\<open>controllers/leaveController.js\<close>)\<close>

text \<open>
  \<^verbatim>\<open>req.body\<close> of the leave routes, cast to the paths of the schema: Mongoose drops every
  key that is not a schema path. \<open>None\<close> is an absent key. The two enumerated paths arrive
  as strings and are checked by the enum validators.
\<close>

record leave_body =
  b_employeeId :: "objid option"
  b_leaveType :: "string option"
  b_startDate :: "date option"
  b_endDate :: "date option"
  b_totalDays :: "number option"
  b_reason :: "string option"
  b_status :: "string option"
  b_approvedBy :: "objid option"
  b_approvedAt :: "date option"
  b_rejectionReason :: "string option"

fun leave_type_name :: "leave_type \<Rightarrow> string" where
  "leave_type_name Annual = ''annual''"
| "leave_type_name Sick = ''sick''"
| "leave_type_name Personal = ''personal''"
| "leave_type_name Unpaid = ''unpaid''"
| "leave_type_name Maternity = ''maternity''"
| "leave_type_name Paternity = ''paternity''"

definition leave_type_of :: "string \<Rightarrow> leave_type option" where
  \<comment> \<open>\<^verbatim>\<open>enum: ['annual', 'sick', 'personal', 'unpaid', 'maternity', 'paternity']\<close>\<close>
  "leave_type_of x =
     find (\<lambda>t. leave_type_name t = x) [Annual, Sick, Personal, Unpaid, Maternity, Paternity]"

fun leave_status_name :: "leave_status \<Rightarrow> string" where
  "leave_status_name Pending = ''pending''"
| "leave_status_name Approved = ''approved''"
| "leave_status_name Rejected = ''rejected''"
| "leave_status_name Cancelled = ''cancelled''"

definition leave_status_of :: "string \<Rightarrow> leave_status option" where
  \<comment> \<open>\<^verbatim>\<open>enum: ['pending', 'approved', 'rejected', 'cancelled']\<close>\<close>
  "leave_status_of x =
     find (\<lambda>t. leave_status_name t = x) [Pending, Approved, Rejected, Cancelled]"

definition is_space :: "char \<Rightarrow> bool" where
  "is_space c = (c \<in> set [CHR '' '', CHR 0x09, CHR 0x0A, CHR 0x0B, CHR 0x0C, CHR 0x0D])"

definition trim :: "string \<Rightarrow> string" where
  \<comment> \<open>\<^verbatim>\<open>trim: true\<close>\<close>
  "trim x = rev (dropWhile is_space (rev (dropWhile is_space x)))"

definition toLowerCase :: "string \<Rightarrow> string" where
  "toLowerCase x =
     map (\<lambda>c. let n = (of_char c :: nat) in if 65 \<le> n \<and> n \<le> 90 then char_of (n + 32) else c) x"

fun replace_first_dash :: "string \<Rightarrow> string" where
  \<comment> \<open>\<^verbatim>\<open>.replace('-', '')\<close>: the first \<^verbatim>\<open>-\<close> is removed.\<close>
  "replace_first_dash [] = []"
| "replace_first_dash (c # cs) = (if c = CHR ''-'' then cs else c # replace_first_dash cs)"

definition leaveTypeKey :: "leave_type \<Rightarrow> string" where
  \<comment> \<open>\<^verbatim>\<open>leave.leaveType.toLowerCase().replace('-', '')\<close>\<close>
  "leaveTypeKey t = replace_first_dash (toLowerCase (leave_type_name t))"

definition Leave_validate :: "objid \<Rightarrow> leave_body \<Rightarrow> store_error + leave" where
  \<comment> \<open>\<^verbatim>\<open>new Leave(body)\<close> with the schema defaults and setters, then the validation that
      \<^verbatim>\<open>save\<close> runs before any pre-save hook: the required paths and the enums.\<close>
  "Leave_validate new_id b =
     (case b_employeeId b of
        None \<Rightarrow> Inl (ValidationError ''employeeId'')
      | Some employeeId \<Rightarrow>
     (case Option.bind (b_leaveType b) leave_type_of of
        None \<Rightarrow> Inl (ValidationError ''leaveType'')
      | Some leaveType \<Rightarrow>
     (case b_startDate b of
        None \<Rightarrow> Inl (ValidationError ''startDate'')
      | Some startDate \<Rightarrow>
     (case b_endDate b of
        None \<Rightarrow> Inl (ValidationError ''endDate'')
      | Some endDate \<Rightarrow>
     (case b_totalDays b of
        None \<Rightarrow> Inl (ValidationError ''totalDays'')
      | Some totalDays \<Rightarrow>
     (case Option.bind (b_reason b) (\<lambda>r. if trim r = [] then None else Some (trim r)) of
        None \<Rightarrow> Inl (ValidationError ''Reason is required'')
      | Some reason \<Rightarrow>
     (case (case b_status b of None \<Rightarrow> Some Pending | Some st \<Rightarrow> leave_status_of st) of
        None \<Rightarrow> Inl (ValidationError ''status'')
      | Some status \<Rightarrow>
          Inr \<lparr>l_id = new_id, l_employeeId = employeeId, l_leaveType = leaveType,
               l_startDate = startDate, l_endDate = endDate, l_totalDays = totalDays,
               l_reason = reason, l_status = status, l_approvedBy = b_approvedBy b,
               l_approvedAt = b_approvedAt b,
               l_rejectionReason = map_option trim (b_rejectionReason b)\<rparr>)))))))"

definition Leave_create :: "leave list \<Rightarrow> leave_body \<Rightarrow> store_error + leave \<times> leave list" where
  \<comment> \<open>\<^verbatim>\<open>Leave.create(body)\<close>: validation, the pre-save hook, the insert.\<close>
  "Leave_create ls b =
     (case Leave_validate (new_ObjectId (map l_id ls)) b of
        Inl e \<Rightarrow> Inl e
      | Inr l \<Rightarrow> (let doc = leave_pre_save l in Inr (doc, ls @ [doc])))"

definition Leave_apply_update :: "leave_body \<Rightarrow> leave \<Rightarrow> store_error + leave" where
  \<comment> \<open>The \<^verbatim>\<open>$set\<close> that \<^verbatim>\<open>findByIdAndUpdate(id, body, { runValidators: true })\<close> performs:
      every key of the body overwrites its path, after the update validators. No \<^verbatim>\<open>save\<close>
      middleware runs on this path.\<close>
  "Leave_apply_update b l =
     (case (case b_leaveType b of None \<Rightarrow> Some (l_leaveType l) | Some lt \<Rightarrow> leave_type_of lt) of
        None \<Rightarrow> Inl (ValidationError ''leaveType'')
      | Some leaveType \<Rightarrow>
     (case (case b_status b of None \<Rightarrow> Some (l_status l) | Some st \<Rightarrow> leave_status_of st) of
        None \<Rightarrow> Inl (ValidationError ''status'')
      | Some status \<Rightarrow>
     (case (case b_reason b of None \<Rightarrow> Some (l_reason l)
            | Some r \<Rightarrow> if trim r = [] then None else Some (trim r)) of
        None \<Rightarrow> Inl (ValidationError ''Reason is required'')
      | Some reason \<Rightarrow>
          Inr \<lparr>l_id = l_id l,
               l_employeeId = (case b_employeeId b of None \<Rightarrow> l_employeeId l | Some i \<Rightarrow> i),
               l_leaveType = leaveType,
               l_startDate = (case b_startDate b of None \<Rightarrow> l_startDate l | Some d \<Rightarrow> d),
               l_endDate = (case b_endDate b of None \<Rightarrow> l_endDate l | Some d \<Rightarrow> d),
               l_totalDays = (case b_totalDays b of None \<Rightarrow> l_totalDays l | Some n \<Rightarrow> n),
               l_reason = reason,
               l_status = status,
               l_approvedBy = (case b_approvedBy b of None \<Rightarrow> l_approvedBy l | Some i \<Rightarrow> Some i),
               l_approvedAt = (case b_approvedAt b of None \<Rightarrow> l_approvedAt l | Some d \<Rightarrow> Some d),
               l_rejectionReason =
                 (case b_rejectionReason b of None \<Rightarrow> l_rejectionReason l
                  | Some r \<Rightarrow> Some (trim r))\<rparr>)))"

definition Leave_findByIdAndUpdate ::
  "leave list \<Rightarrow> objid \<Rightarrow> leave_body \<Rightarrow> store_error + leave option \<times> leave list" where
  \<comment> \<open>With \<^verbatim>\<open>{ new: true }\<close>: the updated document is returned, \<^verbatim>\<open>null\<close> when none has
      the id.\<close>
  "Leave_findByIdAndUpdate ls i b =
     (case Leave_findById ls i of
        None \<Rightarrow> Inr (None, ls)
      | Some l \<Rightarrow>
          (case Leave_apply_update b l of
             Inl e \<Rightarrow> Inl e
           | Inr l' \<Rightarrow> Inr (Some l', replace_first (\<lambda>x. l_id x = i) l' ls)))"

definition createLeave :: "store \<Rightarrow> user \<Rightarrow> leave_body \<Rightarrow> leave option response \<times> store" where
  \<comment> \<open>\<^verbatim>\<open>exports.createLeave\<close>\<close>
  "createLeave s req_user body =
     (case resolve_employeeId (employees s) req_user (b_employeeId body) of
        None \<Rightarrow>
          (Failure 400 ''No employee profile linked to your account. Please contact HR.'', s)
      | Some employeeId \<Rightarrow>
          (case Leave_create (leaves s) (body\<lparr>b_employeeId := Some employeeId\<rparr>) of
             Inl error \<Rightarrow> (Failure 500 ''Server error'', s)
           | Inr (leave, ls') \<Rightarrow>
               (Success 201 (Leave_findById ls' (l_id leave)), s\<lparr>leaves := ls'\<rparr>)))"

definition updateLeave :: "store \<Rightarrow> objid \<Rightarrow> leave_body \<Rightarrow> leave option response \<times> store" where
  \<comment> \<open>\<^verbatim>\<open>exports.updateLeave\<close>\<close>
  "updateLeave s params_id body =
     (case Leave_findById (leaves s) params_id of
        None \<Rightarrow> (Failure 404 ''Leave request not found'', s)
      | Some leave \<Rightarrow>
          (if l_status leave \<noteq> Pending
           then (Failure 400 ''Cannot update leave request that has been processed'', s)
           else
             (case Leave_findByIdAndUpdate (leaves s) params_id body of
                Inl error \<Rightarrow> (Failure 500 ''Server error'', s)
              | Inr (leave, ls') \<Rightarrow> (Success 200 leave, s\<lparr>leaves := ls'\<rparr>))))"

definition deduct_leave_balance :: "employee list \<Rightarrow> leave \<Rightarrow> employee list" where
  \<comment> \<open>The block under \<^verbatim>\<open>// Deduct leave balance from employee\<close> of \<^verbatim>\<open>approveLeave\<close>.\<close>
  "deduct_leave_balance es leave =
     (case Employee_findById es (l_employeeId leave) of
        None \<Rightarrow> es
      | Some employee \<Rightarrow>
          (case e_leaveBalance employee of
             None \<Rightarrow> es
           | Some balance \<Rightarrow>
               (let leaveTypeKey = leaveTypeKey (l_leaveType leave)
                in case leaveBalance_get balance leaveTypeKey of
                     None \<Rightarrow> es
                   | Some n \<Rightarrow>
                       Employee_save es
                         (employee\<lparr>e_leaveBalance :=
                            Some (leaveBalance_set balance leaveTypeKey (n - l_totalDays leave))\<rparr>))))"

definition approveLeave ::
  "store \<Rightarrow> objid \<Rightarrow> user \<Rightarrow> string option \<Rightarrow> date \<Rightarrow> leave option response \<times> store" where
  \<comment> \<open>\<^verbatim>\<open>exports.approveLeave\<close>; \<open>comments\<close> is \<^verbatim>\<open>req.body.comments\<close>. The assignment
      \<^verbatim>\<open>leave.approverComments = req.body.comments\<close> sets a key that is not a path of
      \<^verbatim>\<open>leaveSchema\<close>: \<^verbatim>\<open>save\<close> does not write it, and the response is read back from the
      store.\<close>
  "approveLeave s params_id req_user comments now =
     (case Leave_findById (leaves s) params_id of
        None \<Rightarrow> (Failure 404 ''Leave request not found'', s)
      | Some leave \<Rightarrow>
          (if l_status leave \<noteq> Pending
           then (Failure 400 ''Leave request has already been processed'', s)
           else
             (let approver = Employee_findOne_email (employees s) (u_email req_user)
              in if (case approver of None \<Rightarrow> False | Some a \<Rightarrow> l_employeeId leave = e_id a)
                 then (Failure 400 ''You cannot approve your own leave request'', s)
                 else
                   (case Leave_save (leaves s)
                           (leave\<lparr>l_status := Approved,
                                  l_approvedBy := map_option e_id approver,
                                  l_approvedAt := Some now\<rparr>) of
                      (leave, ls') \<Rightarrow>
                        (let es' = deduct_leave_balance (employees s) leave
                         in (Success 200 (Leave_findById ls' (l_id leave)),
                             s\<lparr>leaves := ls', employees := es'\<rparr>))))))"

definition rejectLeave ::
  "store \<Rightarrow> objid \<Rightarrow> user \<Rightarrow> string option \<Rightarrow> string option \<Rightarrow> date
     \<Rightarrow> leave option response \<times> store" where
  \<comment> \<open>\<^verbatim>\<open>exports.rejectLeave\<close>; \<open>comments\<close> and \<open>reason\<close> are \<^verbatim>\<open>req.body.comments\<close> and
      \<^verbatim>\<open>req.body.reason\<close>, assigned to the same non-schema key \<^verbatim>\<open>approverComments\<close>.\<close>
  "rejectLeave s params_id req_user comments reason now =
     (case Leave_findById (leaves s) params_id of
        None \<Rightarrow> (Failure 404 ''Leave request not found'', s)
      | Some leave \<Rightarrow>
          (if l_status leave \<noteq> Pending
           then (Failure 400 ''Leave request has already been processed'', s)
           else
             (let approver = Employee_findOne_email (employees s) (u_email req_user)
              in if (case approver of None \<Rightarrow> False | Some a \<Rightarrow> l_employeeId leave = e_id a)
                 then (Failure 400 ''You cannot reject your own leave request'', s)
                 else
                   (case Leave_save (leaves s)
                           (leave\<lparr>l_status := Rejected,
                                  l_approvedBy := map_option e_id approver,
                                  l_approvedAt := Some now\<rparr>) of
                      (leave, ls') \<Rightarrow>
                        (Success 200 (Leave_findById ls' (l_id leave)),
                         s\<lparr>leaves := ls'\<rparr>)))))"

definition deleteLeave :: "store \<Rightarrow> objid \<Rightarrow> leave option response \<times> store" where
  \<comment> \<open>\<^verbatim>\<open>exports.deleteLeave\<close>\<close>
  "deleteLeave s params_id =
     (case Leave_findById (leaves s) params_id of
        None \<Rightarrow> (Failure 404 ''Leave request not found'', s)
      | Some leave \<Rightarrow>
          (if l_status leave \<noteq> Pending
           then (Failure 400 ''Cannot delete leave request that has been processed'', s)
           else (SuccessMessage 200 ''Leave request deleted successfully'',
                 s\<lparr>leaves := Leave_deleteOne (leaves s) leave\<rparr>)))"

subsection \<open>Sequences of leave operations\<close>

text \<open>The requests of the leave routes that write, and the store after a sequence of them.\<close>

datatype leave_op =
    CreateLeave user leave_body
  | UpdateLeave objid leave_body
  | ApproveLeave objid user "string option" date
  | RejectLeave objid user "string option" "string option" date
  | DeleteLeave objid

fun leave_step :: "store \<Rightarrow> leave_op \<Rightarrow> store" where
  "leave_step s (CreateLeave u b) = snd (createLeave s u b)"
| "leave_step s (UpdateLeave i b) = snd (updateLeave s i b)"
| "leave_step s (ApproveLeave i u c now) = snd (approveLeave s i u c now)"
| "leave_step s (RejectLeave i u c r now) = snd (rejectLeave s i u c r now)"
| "leave_step s (DeleteLeave i) = snd (deleteLeave s i)"

fun leave_run :: "store \<Rightarrow> leave_op list \<Rightarrow> store" where
  "leave_run s [] = s"
| "leave_run s (op # ops) = leave_run (leave_step s op) ops"

subsection \<open>An auxiliary relation\<close>

definition replaced_pending :: "leave list \<Rightarrow> objid \<Rightarrow> leave \<Rightarrow> leave list \<Rightarrow> bool" where
  \<comment> \<open>\<open>ls'\<close> is \<open>ls\<close> with its pending request \<open>i\<close> replaced by \<open>y\<close>.\<close>
  "replaced_pending ls i y ls' =
     (case Leave_findById ls i of
        None \<Rightarrow> False
      | Some l \<Rightarrow> l_status l = Pending \<and> l_id y = i
                  \<and> ls' = replace_first (\<lambda>x. l_id x = i) y ls)"

section \<open>The specification's formulas\<close>

definition spec_totalDays :: "date \<Rightarrow> date \<Rightarrow> number" where
  \<comment> \<open>The specification: \<^verbatim>\<open>ceil(|endDate - startDate| in days) + 1\<close>.\<close>
  "spec_totalDays startDate endDate =
     of_int \<lceil>(of_int \<bar>endDate - startDate\<bar> :: real) / 86400000\<rceil> + 1"



section \<open>Fixtures\<close>

text \<open>
  The documents that \<^verbatim>\<open>tests/leave.test.js\<close> and \<^verbatim>\<open>tests/attendance.test.js\<close> set up, the
  requests they send, and what the handlers make of them.
\<close>

definition fixture_john :: employee where
  "fixture_john = \<lparr>e_id = 1, e_email = ''john@test.com'', e_status = Active,
     e_leaveBalance = Some \<lparr>annual = 20, sick = 10, personal = 5, unpaid = 0\<rparr>\<rparr>"

definition fixture_admin :: user where
  "fixture_admin = \<lparr>u_role = ''admin'', u_email = ''admin@test.com'', u_employeeId = None\<rparr>"

definition fixture_vacation :: leave where
  \<comment> \<open>15 to 17 January 2024\<close>
  "fixture_vacation = \<lparr>l_id = 1, l_employeeId = 1, l_leaveType = Annual,
     l_startDate = 1705276800000, l_endDate = 1705449600000, l_totalDays = 3,
     l_reason = ''Vacation'', l_status = Pending, l_approvedBy = None, l_approvedAt = None,
     l_rejectionReason = None\<rparr>"

definition fixture_store :: store where
  "fixture_store =
     \<lparr>employees = [fixture_john], leaves = [fixture_vacation], attendances = []\<rparr>"

definition empty_body :: leave_body where
  "empty_body = \<lparr>b_employeeId = None, b_leaveType = None, b_startDate = None,
     b_endDate = None, b_totalDays = None, b_reason = None, b_status = None,
     b_approvedBy = None, b_approvedAt = None, b_rejectionReason = None\<rparr>"

definition family_event :: leave_body where
  \<comment> \<open>1 to 3 March 2024, with a \<^verbatim>\<open>totalDays\<close> that does not fit the dates\<close>
  "family_event = empty_body\<lparr>b_employeeId := Some 1, b_leaveType := Some ''annual'',
     b_startDate := Some 1709251200000, b_endDate := Some 1709424000000,
     b_totalDays := Some 99, b_reason := Some ''Family event''\<rparr>"


definition approved_vacation :: leave where
  "approved_vacation = fixture_vacation\<lparr>l_status := Approved, l_approvedAt := Some 1705000000000\<rparr>"

definition rejected_vacation :: leave where
  "rejected_vacation = fixture_vacation\<lparr>l_status := Rejected, l_approvedAt := Some 1705000000000\<rparr>"

definition fixture_shift :: attendance where
  \<comment> \<open>15 January 2024, 09:00 to 17:20 UTC\<close>
  "fixture_shift = \<lparr>a_id = 1, a_employeeId = 1, a_date = 1705276800000,
     a_clockIn = Some 1705309200000, a_clockOut = Some 1705339200000, a_breakStart = None,
     a_breakEnd = None, a_totalWorkHours = 0, a_status = Present, a_notes = None\<rparr>"

definition fixture_clocked_in :: attendance where
  "fixture_clocked_in = fixture_shift\<lparr>a_clockOut := None\<rparr>"

definition fixture_clocked_out :: attendance where
  "fixture_clocked_out = fixture_shift\<lparr>a_totalWorkHours := 833 / 100\<rparr>"

definition clocked_in_store :: store where
  "clocked_in_store = fixture_store\<lparr>attendances := [fixture_clocked_in]\<rparr>"

definition clocked_out_store :: store where
  "clocked_out_store = fixture_store\<lparr>attendances := [fixture_clocked_out]\<rparr>"







definition fixture_unmatched_john :: user where
  "fixture_unmatched_john =
     \<lparr>u_role = ''hr'', u_email = ''john.doe@test.com'', u_employeeId = Some (Populated fixture_john)\<rparr>"

definition approved_store :: store where
  "approved_store =
     \<lparr>employees = [fixture_john\<lparr>e_leaveBalance :=
                       Some \<lparr>annual = 17, sick = 10, personal = 5, unpaid = 0\<rparr>\<rparr>],
      leaves = [approved_vacation], attendances = []\<rparr>"

definition cancel_patch :: leave_body where
  "cancel_patch = empty_body\<lparr>b_status := Some ''cancelled''\<rparr>"

definition all_operations :: "leave_op list" where
  "all_operations =
     [UpdateLeave 1 cancel_patch, ApproveLeave 1 fixture_admin None 1705100000000,
      RejectLeave 1 fixture_admin None None 1705100000000, DeleteLeave 1,
      CreateLeave fixture_admin family_event]"

definition cancelled_vacation :: leave where
  "cancelled_vacation = fixture_vacation\<lparr>l_status := Cancelled\<rparr>"

definition extended_vacation :: leave where
  "extended_vacation = fixture_vacation\<lparr>l_endDate := 1705708800000\<rparr>"

definition extend_patch :: leave_body where
  "extend_patch = empty_body\<lparr>b_endDate := Some 1705708800000\<rparr>"

definition totalDays_patch :: leave_body where
  "totalDays_patch = empty_body\<lparr>b_totalDays := Some 99\<rparr>"

section \<open>Properties\<close>

subsection \<open>Auxiliary facts\<close>


lemma MS_PER_HOUR_value: "MS_PER_HOUR = 3600000"
  by (simp add: MS_PER_HOUR_def)






lemma find_append_old: "find p xs = Some x \<Longrightarrow> find p (xs @ ys) = Some x"
  by (induction xs) (auto split: if_splits)

lemma find_replace_first: "find p xs \<noteq> None \<Longrightarrow> p y \<Longrightarrow> find p (replace_first p y xs) = Some y"
  by (induction xs) auto

lemma leave_pre_save_totalDays:
  "l_totalDays (leave_pre_save l) = spec_totalDays (l_startDate l) (l_endDate l)"
  by (simp add: leave_pre_save_def spec_totalDays_def Math_ceil_def MS_PER_DAY_def Let_def)

lemma leave_pre_save_fields [simp]:
  "l_id (leave_pre_save l) = l_id l"
  "l_employeeId (leave_pre_save l) = l_employeeId l"
  "l_leaveType (leave_pre_save l) = l_leaveType l"
  "l_startDate (leave_pre_save l) = l_startDate l"
  "l_endDate (leave_pre_save l) = l_endDate l"
  "l_status (leave_pre_save l) = l_status l"
  "l_approvedBy (leave_pre_save l) = l_approvedBy l"
  "l_approvedAt (leave_pre_save l) = l_approvedAt l"
  by (simp_all add: leave_pre_save_def Let_def)


lemma Leave_save_doc:
  assumes "Leave_findById ls (l_id l) = Some l0" and "Leave_save ls l = (l', ls')"
  shows "Leave_findById ls' (l_id l') = Some l'" and "l' = leave_pre_save l"
  using assms unfolding Leave_findById_def Leave_save_def Let_def
  by (auto intro!: find_replace_first)

lemma Leave_findById_id: "Leave_findById ls i = Some l \<Longrightarrow> l_id l = i"
  unfolding Leave_findById_def by (auto dest: find_Some_iff [THEN iffD1])






lemma attendance_pre_save_fields [simp]:
  "a_id (attendance_pre_save a) = a_id a"
  "a_employeeId (attendance_pre_save a) = a_employeeId a"
  "a_date (attendance_pre_save a) = a_date a"
  "a_clockIn (attendance_pre_save a) = a_clockIn a"
  "a_clockOut (attendance_pre_save a) = a_clockOut a"
  "a_breakStart (attendance_pre_save a) = a_breakStart a"
  "a_breakEnd (attendance_pre_save a) = a_breakEnd a"
  "a_status (attendance_pre_save a) = a_status a"
  by (simp_all add: attendance_pre_save_def Let_def split: option.splits)







subsection \<open>The inclusive day count\<close>



subsection \<open>Worked hours\<close>



subsection \<open>Clocking in\<close>



lemma today_utc_window:
  "today_utc now 0 \<le> now \<and> now < tomorrow_utc (today_utc now 0)"
proof -
  have "now div 86400000 * 86400000 = now - now mod 86400000"
    by (simp add: minus_mod_eq_div_mult [symmetric])
  moreover have "0 \<le> now mod 86400000" "now mod 86400000 < 86400000" by simp_all
  ultimately show ?thesis
    by (simp add: today_utc_def tomorrow_utc_def MS_PER_DAY_def)
qed









subsection \<open>Clocking out\<close>

lemma find_Some_sat: "find p xs = Some a \<Longrightarrow> p a \<and> a \<in> set xs"
  by (induction xs) (auto split: if_splits)

lemma find_replace_first_by_key:
  "find q xs = Some a \<Longrightarrow> q a' \<Longrightarrow>
   find q (replace_first (\<lambda>x. f x = f a) a' xs) = Some a'"
  by (induction xs) (auto split: if_splits)

lemma clockOut_no_record:
  assumes r: "resolve_employeeId (employees s) u body = Some eid"
    and n: "Attendance_findOne_day (attendances s) eid (today_utc now tz)
              (tomorrow_utc (today_utc now tz)) = None"
  shows "clockOut s (Some u) body now tz = (Failure 400 ''No clock-in record found for today'', s)"
  unfolding clockOut_def using r n by (simp add: Let_def)

lemma clockOut_already:
  assumes r: "resolve_employeeId (employees s) u body = Some eid"
    and n: "Attendance_findOne_day (attendances s) eid (today_utc now tz)
              (tomorrow_utc (today_utc now tz)) = Some a"
    and o: "a_clockOut a \<noteq> None"
  shows "clockOut s (Some u) body now tz = (Failure 400 ''Already clocked out today'', s)"
  unfolding clockOut_def using r n o by (auto simp: Let_def)

lemma clockOut_sets:
  assumes r: "resolve_employeeId (employees s) u body = Some eid"
    and n: "Attendance_findOne_day (attendances s) eid (today_utc now tz)
              (tomorrow_utc (today_utc now tz)) = Some a"
    and o: "a_clockOut a = None"
  shows "clockOut s (Some u) body now tz =
     (Success 200 (Some (attendance_pre_save (a\<lparr>a_clockOut := Some now\<rparr>))),
      s\<lparr>attendances := replace_first (\<lambda>x. a_id x = a_id a)
                          (attendance_pre_save (a\<lparr>a_clockOut := Some now\<rparr>)) (attendances s)\<rparr>)"
proof -
  let ?a' = "attendance_pre_save (a\<lparr>a_clockOut := Some now\<rparr>)"
  from n have m: "a \<in> set (attendances s)"
    unfolding Attendance_findOne_day_def by (auto dest: find_Some_sat)
  then have "find (\<lambda>x. a_id x = a_id a) (attendances s) \<noteq> None"
    by (auto simp: find_None_iff)
  then have f: "Attendance_findById (replace_first (\<lambda>x. a_id x = a_id a) ?a' (attendances s)) (a_id a)
      = Some ?a'"
    unfolding Attendance_findById_def by (rule find_replace_first) simp
  show ?thesis
    unfolding clockOut_def using r n o f by (simp add: Let_def Attendance_save_def)
qed

text \<open>
  C5. For a principal that resolves to an employee: with no attendance record in today's
  window \<open>clockOut\<close> fails with ``No clock-in record found for today'' (400); with a record
  that already has a \<open>clockOut\<close> it fails with ``Already clocked out today'' (400); otherwise
  it sets \<open>clockOut = now\<close>, stores the record and returns it, and a second clock-out on the
  same day then fails with ``Already clocked out today''. The failures change nothing.
\<close>

theorem clockOut_exactly_once:
  assumes r: "resolve_employeeId (employees s) u body = Some eid"
  shows "(Attendance_findOne_day (attendances s) eid (today_utc now tz)
              (tomorrow_utc (today_utc now tz)) = None \<longrightarrow>
          clockOut s (Some u) body now tz =
            (Failure 400 ''No clock-in record found for today'', s))
   \<and> (Attendance_findOne_day (attendances s) eid (today_utc now tz)
              (tomorrow_utc (today_utc now tz)) = Some a \<and> a_clockOut a \<noteq> None \<longrightarrow>
          clockOut s (Some u) body now tz = (Failure 400 ''Already clocked out today'', s))
   \<and> (Attendance_findOne_day (attendances s) eid (today_utc now tz)
              (tomorrow_utc (today_utc now tz)) = Some a \<and> a_clockOut a = None \<longrightarrow>
          clockOut s (Some u) body now tz =
            (Success 200 (Some (attendance_pre_save (a\<lparr>a_clockOut := Some now\<rparr>))),
             s\<lparr>attendances := replace_first (\<lambda>x. a_id x = a_id a)
                  (attendance_pre_save (a\<lparr>a_clockOut := Some now\<rparr>)) (attendances s)\<rparr>)
          \<and> a_clockOut (attendance_pre_save (a\<lparr>a_clockOut := Some now\<rparr>)) = Some now
          \<and> Attendance_findById (attendances (snd (clockOut s (Some u) body now tz))) (a_id a)
              = Some (attendance_pre_save (a\<lparr>a_clockOut := Some now\<rparr>))
          \<and> (resolve_employeeId (employees s) u2 body2 = Some eid
                \<and> today_utc now2 tz2 = today_utc now tz \<longrightarrow>
              clockOut (snd (clockOut s (Some u) body now tz)) (Some u2) body2 now2 tz2 =
                (Failure 400 ''Already clocked out today'',
                 snd (clockOut s (Some u) body now tz))))"
proof (intro conjI impI)
  assume "Attendance_findOne_day (attendances s) eid (today_utc now tz)
              (tomorrow_utc (today_utc now tz)) = None"
  then show "clockOut s (Some u) body now tz =
            (Failure 400 ''No clock-in record found for today'', s)"
    by (rule clockOut_no_record [OF r])
next
  assume "Attendance_findOne_day (attendances s) eid (today_utc now tz)
              (tomorrow_utc (today_utc now tz)) = Some a \<and> a_clockOut a \<noteq> None"
  then show "clockOut s (Some u) body now tz = (Failure 400 ''Already clocked out today'', s)"
    using clockOut_already [OF r] by blast
next
  assume h: "Attendance_findOne_day (attendances s) eid (today_utc now tz)
              (tomorrow_utc (today_utc now tz)) = Some a \<and> a_clockOut a = None"
  let ?a' = "attendance_pre_save (a\<lparr>a_clockOut := Some now\<rparr>)"
  let ?as' = "replace_first (\<lambda>x. a_id x = a_id a) ?a' (attendances s)"
  from h have n: "Attendance_findOne_day (attendances s) eid (today_utc now tz)
              (tomorrow_utc (today_utc now tz)) = Some a" and o: "a_clockOut a = None"
    by simp_all
  show c: "clockOut s (Some u) body now tz = (Success 200 (Some ?a'), s\<lparr>attendances := ?as'\<rparr>)"
    by (rule clockOut_sets [OF r n o])
  show "a_clockOut ?a' = Some now" by simp
  from n have m: "a \<in> set (attendances s)"
    unfolding Attendance_findOne_day_def by (auto dest: find_Some_sat)
  then have "find (\<lambda>x. a_id x = a_id a) (attendances s) \<noteq> None"
    by (auto simp: find_None_iff)
  then show "Attendance_findById (attendances (snd (clockOut s (Some u) body now tz))) (a_id a)
              = Some ?a'"
    unfolding c Attendance_findById_def by (simp add: find_replace_first)
  {
    assume h2: "resolve_employeeId (employees s) u2 body2 = Some eid
                \<and> today_utc now2 tz2 = today_utc now tz"
    from n have q: "a_employeeId a = eid \<and> today_utc now tz \<le> a_date a
        \<and> a_date a < tomorrow_utc (today_utc now tz)"
      unfolding Attendance_findOne_day_def by (auto dest: find_Some_sat)
    have "Attendance_findOne_day ?as' eid (today_utc now tz)
              (tomorrow_utc (today_utc now tz)) = Some ?a'"
      using n q unfolding Attendance_findOne_day_def
      by (intro find_replace_first_by_key) simp_all
    with h2 have "clockOut (s\<lparr>attendances := ?as'\<rparr>) (Some u2) body2 now2 tz2 =
                (Failure 400 ''Already clocked out today'', s\<lparr>attendances := ?as'\<rparr>)"
      by (intro clockOut_already [where a = ?a' and eid = eid]) simp_all
    then show "clockOut (snd (clockOut s (Some u) body now tz)) (Some u2) body2 now2 tz2 =
                (Failure 400 ''Already clocked out today'',
                 snd (clockOut s (Some u) body now tz))"
      unfolding c by simp
  }
qed

lemma fixture_today: "today_utc 1705339200000 0 = 1705276800000"
  "today_utc 1705342800000 0 = 1705276800000"
  "tomorrow_utc 1705276800000 = 1705363200000"
  by (simp_all add: today_utc_def tomorrow_utc_def MS_PER_DAY_def)

lemma fixture_resolve: "resolve_employeeId es fixture_admin (Some 1) = Some 1"
  by (simp add: resolve_employeeId_def)

lemma fixture_pre_save: "attendance_pre_save (fixture_clocked_in\<lparr>a_clockOut := Some 1705339200000\<rparr>) = fixture_clocked_out"
  by (simp add: attendance_pre_save_def fixture_clocked_in_def fixture_clocked_out_def fixture_shift_def
     Math_round_def MS_PER_HOUR_def Let_def)

theorem clockOut_exactly_once_witness:
  "resolve_employeeId (employees fixture_store) fixture_admin (Some 1) = Some 1
   \<and> Attendance_findOne_day (attendances fixture_store) 1 (today_utc 1705339200000 0)
        (tomorrow_utc (today_utc 1705339200000 0)) = None
   \<and> clockOut fixture_store (Some fixture_admin) (Some 1) 1705339200000 0 =
        (Failure 400 ''No clock-in record found for today'', fixture_store)
   \<and> Attendance_findOne_day (attendances clocked_in_store) 1 (today_utc 1705339200000 0)
        (tomorrow_utc (today_utc 1705339200000 0)) = Some fixture_clocked_in
   \<and> a_clockOut fixture_clocked_in = None
   \<and> clockOut clocked_in_store (Some fixture_admin) (Some 1) 1705339200000 0 =
        (Success 200 (Some fixture_clocked_out), clocked_out_store)
   \<and> a_clockOut fixture_clocked_out = Some 1705339200000
   \<and> today_utc 1705342800000 0 = today_utc 1705339200000 0
   \<and> clockOut clocked_out_store (Some fixture_admin) (Some 1) 1705342800000 0 =
        (Failure 400 ''Already clocked out today'', clocked_out_store)
   \<and> Attendance_findOne_day (attendances clocked_out_store) 1 (today_utc 1705339200000 0)
        (tomorrow_utc (today_utc 1705339200000 0)) = Some fixture_clocked_out
   \<and> a_clockOut fixture_clocked_out \<noteq> None
   \<and> clockOut clocked_out_store (Some fixture_admin) (Some 1) 1705339200000 0 =
        (Failure 400 ''Already clocked out today'', clocked_out_store)"
proof -
  have r: "resolve_employeeId (employees s) fixture_admin (Some 1) = Some 1" for s
    by (rule fixture_resolve)
  have n0: "Attendance_findOne_day (attendances fixture_store) 1 (today_utc 1705339200000 0)
        (tomorrow_utc (today_utc 1705339200000 0)) = None"
    by (simp add: fixture_store_def Attendance_findOne_day_def)
  have n1: "Attendance_findOne_day (attendances clocked_in_store) 1 (today_utc 1705339200000 0)
        (tomorrow_utc (today_utc 1705339200000 0)) = Some fixture_clocked_in"
    by (simp add: fixture_today clocked_in_store_def Attendance_findOne_day_def
          fixture_clocked_in_def fixture_shift_def)
  have n2: "Attendance_findOne_day (attendances clocked_out_store) 1 (today_utc 1705339200000 0)
        (tomorrow_utc (today_utc 1705339200000 0)) = Some fixture_clocked_out"
    by (simp add: fixture_today clocked_out_store_def Attendance_findOne_day_def
          fixture_clocked_out_def fixture_shift_def)
  have o1: "a_clockOut fixture_clocked_in = None"
    by (simp add: fixture_clocked_in_def)
  have o2: "a_clockOut fixture_clocked_out = Some 1705339200000" "a_clockOut fixture_clocked_out \<noteq> None"
    by (simp_all add: fixture_clocked_out_def fixture_shift_def)
  have d: "today_utc 1705342800000 0 = today_utc 1705339200000 0"
    by (simp add: fixture_today)
  have st: "clocked_in_store\<lparr>attendances := replace_first (\<lambda>x. a_id x = a_id fixture_clocked_in)
                  fixture_clocked_out (attendances clocked_in_store)\<rparr> = clocked_out_store"
    by (simp add: clocked_in_store_def clocked_out_store_def)
  from clockOut_exactly_once [OF r, of fixture_store 1705339200000 0] n0
  have c0: "clockOut fixture_store (Some fixture_admin) (Some 1) 1705339200000 0 =
        (Failure 400 ''No clock-in record found for today'', fixture_store)"
    by blast
  note t1 = clockOut_exactly_once [OF r, of clocked_in_store 1705339200000 0 fixture_clocked_in
      fixture_admin "Some 1" 1705342800000 0]
  from t1 n1 o1 have c1: "clockOut clocked_in_store (Some fixture_admin) (Some 1) 1705339200000 0 =
        (Success 200 (Some fixture_clocked_out), clocked_out_store)"
    by (simp only: fixture_pre_save st simp_thms)
  from t1 n1 o1 r d
  have "clockOut (snd (clockOut clocked_in_store (Some fixture_admin) (Some 1) 1705339200000 0))
          (Some fixture_admin) (Some 1) 1705342800000 0 =
        (Failure 400 ''Already clocked out today'',
         snd (clockOut clocked_in_store (Some fixture_admin) (Some 1) 1705339200000 0))"
    by blast
  then have c2: "clockOut clocked_out_store (Some fixture_admin) (Some 1) 1705342800000 0 =
        (Failure 400 ''Already clocked out today'', clocked_out_store)"
    by (simp only: c1 snd_conv)
  from clockOut_exactly_once [OF r, of clocked_out_store 1705339200000 0 fixture_clocked_out] n2 o2
  have c3: "clockOut clocked_out_store (Some fixture_admin) (Some 1) 1705339200000 0 =
        (Failure 400 ''Already clocked out today'', clocked_out_store)"
    by blast
  show ?thesis
    using r n0 c0 n1 o1 c1 o2 d c2 n2 c3 by (simp only: simp_thms)
qed

subsection \<open>Attendance statistics\<close>







subsection \<open>Approving and rejecting: the self-approval check\<close>

lemma approveLeave_no_approver:
  assumes f: "Leave_findById (leaves s) i = Some l" and p: "l_status l = Pending"
    and n: "Employee_findOne_email (employees s) (u_email u) = None"
  shows "approveLeave s i u c now =
     (Success 200 (Some (leave_pre_save
          (l\<lparr>l_status := Approved, l_approvedBy := None, l_approvedAt := Some now\<rparr>))),
      s\<lparr>leaves := replace_first (\<lambda>x. l_id x = i)
                    (leave_pre_save
                       (l\<lparr>l_status := Approved, l_approvedBy := None, l_approvedAt := Some now\<rparr>))
                    (leaves s),
        employees := deduct_leave_balance (employees s)
                    (leave_pre_save
                       (l\<lparr>l_status := Approved, l_approvedBy := None, l_approvedAt := Some now\<rparr>))\<rparr>)"
proof -
  have i: "l_id l = i" using f by (rule Leave_findById_id)
  have "find (\<lambda>x. l_id x = i) (leaves s) \<noteq> None"
    using f by (simp add: Leave_findById_def)
  then have "Leave_findById (replace_first (\<lambda>x. l_id x = i)
                    (leave_pre_save
                       (l\<lparr>l_status := Approved, l_approvedBy := None, l_approvedAt := Some now\<rparr>))
                    (leaves s)) i = Some (leave_pre_save
                       (l\<lparr>l_status := Approved, l_approvedBy := None, l_approvedAt := Some now\<rparr>))"
    unfolding Leave_findById_def by (rule find_replace_first) (simp add: i)
  then show ?thesis
    unfolding approveLeave_def using f p n i by (simp add: Let_def Leave_save_def)
qed

lemma rejectLeave_no_approver:
  assumes f: "Leave_findById (leaves s) i = Some l" and p: "l_status l = Pending"
    and n: "Employee_findOne_email (employees s) (u_email u) = None"
  shows "rejectLeave s i u c r now =
     (Success 200 (Some (leave_pre_save
          (l\<lparr>l_status := Rejected, l_approvedBy := None, l_approvedAt := Some now\<rparr>))),
      s\<lparr>leaves := replace_first (\<lambda>x. l_id x = i)
                    (leave_pre_save
                       (l\<lparr>l_status := Rejected, l_approvedBy := None, l_approvedAt := Some now\<rparr>))
                    (leaves s)\<rparr>)"
proof -
  have i: "l_id l = i" using f by (rule Leave_findById_id)
  have "find (\<lambda>x. l_id x = i) (leaves s) \<noteq> None"
    using f by (simp add: Leave_findById_def)
  then have "Leave_findById (replace_first (\<lambda>x. l_id x = i)
                    (leave_pre_save
                       (l\<lparr>l_status := Rejected, l_approvedBy := None, l_approvedAt := Some now\<rparr>))
                    (leaves s)) i = Some (leave_pre_save
                       (l\<lparr>l_status := Rejected, l_approvedBy := None, l_approvedAt := Some now\<rparr>))"
    unfolding Leave_findById_def by (rule find_replace_first) (simp add: i)
  then show ?thesis
    unfolding rejectLeave_def using f p n i by (simp add: Let_def Leave_save_def)
qed

text \<open>
  C10. A call of \<open>approveLeave\<close> or \<open>rejectLeave\<close> looks the approver up only once it has
  found the request and found it pending. When that lookup finds no employee with the
  principal's email, the self-approval check is skipped: the transition succeeds and the
  stored request has \<open>approvedBy\<close> unset. Nothing is asked of the principal's linked
  employee id, so this covers the caller who is the request's owner.
\<close>

theorem unmatched_approver_skips_self_check:
  assumes f: "Leave_findById (leaves s) i = Some l" and p: "l_status l = Pending"
    and n: "Employee_findOne_email (employees s) (u_email u) = None"
  shows "approveLeave s i u c now =
     (Success 200 (Some (leave_pre_save
          (l\<lparr>l_status := Approved, l_approvedBy := None, l_approvedAt := Some now\<rparr>))),
      s\<lparr>leaves := replace_first (\<lambda>x. l_id x = i)
                    (leave_pre_save
                       (l\<lparr>l_status := Approved, l_approvedBy := None, l_approvedAt := Some now\<rparr>))
                    (leaves s),
        employees := deduct_leave_balance (employees s)
                    (leave_pre_save
                       (l\<lparr>l_status := Approved, l_approvedBy := None, l_approvedAt := Some now\<rparr>))\<rparr>)
   \<and> rejectLeave s i u c r now =
     (Success 200 (Some (leave_pre_save
          (l\<lparr>l_status := Rejected, l_approvedBy := None, l_approvedAt := Some now\<rparr>))),
      s\<lparr>leaves := replace_first (\<lambda>x. l_id x = i)
                    (leave_pre_save
                       (l\<lparr>l_status := Rejected, l_approvedBy := None, l_approvedAt := Some now\<rparr>))
                    (leaves s)\<rparr>)
   \<and> l_approvedBy (leave_pre_save
          (l\<lparr>l_status := Approved, l_approvedBy := None, l_approvedAt := Some now\<rparr>)) = None
   \<and> l_status (leave_pre_save
          (l\<lparr>l_status := Approved, l_approvedBy := None, l_approvedAt := Some now\<rparr>)) = Approved
   \<and> l_approvedBy (leave_pre_save
          (l\<lparr>l_status := Rejected, l_approvedBy := None, l_approvedAt := Some now\<rparr>)) = None
   \<and> l_status (leave_pre_save
          (l\<lparr>l_status := Rejected, l_approvedBy := None, l_approvedAt := Some now\<rparr>)) = Rejected"
  using approveLeave_no_approver [OF f p n] rejectLeave_no_approver [OF f p n] by simp

theorem unmatched_approver_skips_self_check_witness:
  "Leave_findById (leaves fixture_store) 1 = Some fixture_vacation
   \<and> l_status fixture_vacation = Pending
   \<and> Employee_findOne_email (employees fixture_store) (u_email fixture_unmatched_john) = None
   \<and> map_option ref_id (u_employeeId fixture_unmatched_john) = Some (l_employeeId fixture_vacation)
   \<and> approveLeave fixture_store 1 fixture_unmatched_john None 1705000000000 =
        (Success 200 (Some approved_vacation), approved_store)
   \<and> rejectLeave fixture_store 1 fixture_unmatched_john None None 1705000000000 =
        (Success 200 (Some rejected_vacation), fixture_store\<lparr>leaves := [rejected_vacation]\<rparr>)
   \<and> l_approvedBy approved_vacation = None \<and> l_approvedBy rejected_vacation = None"
proof -
  have f: "Leave_findById (leaves fixture_store) 1 = Some fixture_vacation"
    by (simp add: fixture_store_def Leave_findById_def fixture_vacation_def)
  have p: "l_status fixture_vacation = Pending"
    by (simp add: fixture_vacation_def)
  have n: "Employee_findOne_email (employees fixture_store) (u_email fixture_unmatched_john) = None"
    by (simp add: fixture_store_def Employee_findOne_email_def fixture_john_def
          fixture_unmatched_john_def)
  have o: "map_option ref_id (u_employeeId fixture_unmatched_john) = Some (l_employeeId fixture_vacation)"
    by (simp add: fixture_unmatched_john_def fixture_john_def fixture_vacation_def)
  have a: "leave_pre_save (fixture_vacation\<lparr>l_status := Approved, l_approvedBy := None,
              l_approvedAt := Some 1705000000000\<rparr>) = approved_vacation"
    by code_simp
  have r: "leave_pre_save (fixture_vacation\<lparr>l_status := Rejected, l_approvedBy := None,
              l_approvedAt := Some 1705000000000\<rparr>) = rejected_vacation"
    by code_simp
  have sa: "fixture_store\<lparr>leaves := replace_first (\<lambda>x. l_id x = 1) approved_vacation (leaves fixture_store),
        employees := deduct_leave_balance (employees fixture_store) approved_vacation\<rparr> = approved_store"
    by code_simp
  have sr: "fixture_store\<lparr>leaves := replace_first (\<lambda>x. l_id x = 1) rejected_vacation (leaves fixture_store)\<rparr>
       = fixture_store\<lparr>leaves := [rejected_vacation]\<rparr>"
    by code_simp
  note t = unmatched_approver_skips_self_check [OF f p n, of None 1705000000000 None]
  from t have 1: "approveLeave fixture_store 1 fixture_unmatched_john None 1705000000000 =
        (Success 200 (Some approved_vacation), approved_store)"
    unfolding a sa by blast
  from t have 2: "rejectLeave fixture_store 1 fixture_unmatched_john None None 1705000000000 =
        (Success 200 (Some rejected_vacation), fixture_store\<lparr>leaves := [rejected_vacation]\<rparr>)"
    unfolding r sr by blast
  from t have 3: "l_approvedBy approved_vacation = None" "l_approvedBy rejected_vacation = None"
    unfolding a r by blast+
  show ?thesis using f p n o 1 2 3 by (simp only: simp_thms)
qed




subsection \<open>Processed requests are final\<close>

lemma find_replace_first_other:
  "(\<And>x. p x \<Longrightarrow> \<not> q x) \<Longrightarrow> \<not> q y \<Longrightarrow> find q (replace_first p y xs) = find q xs"
  by (induction xs) auto

lemma find_remove_first_other:
  "(\<And>x. p x \<Longrightarrow> \<not> q x) \<Longrightarrow> find q (remove_first p xs) = find q xs"
  by (induction xs) auto

lemma kept_replace:
  assumes "Leave_findById ls i = Some l" "l_status l = Pending" "l_id y = i"
    and "Leave_findById ls j = Some lj" "l_status lj \<noteq> Pending"
  shows "Leave_findById (replace_first (\<lambda>x. l_id x = i) y ls) j = Some lj"
proof -
  from assms have "j \<noteq> i" by auto
  then have "find (\<lambda>x. l_id x = j) (replace_first (\<lambda>x. l_id x = i) y ls)
      = find (\<lambda>x. l_id x = j) ls"
    using assms(3) by (intro find_replace_first_other) auto
  with assms(4) show ?thesis by (simp add: Leave_findById_def)
qed

lemma kept_remove:
  assumes "Leave_findById ls i = Some l" "l_status l = Pending"
    and "Leave_findById ls j = Some lj" "l_status lj \<noteq> Pending"
  shows "Leave_findById (remove_first (\<lambda>x. l_id x = i) ls) j = Some lj"
proof -
  from assms have "j \<noteq> i" by auto
  then have "find (\<lambda>x. l_id x = j) (remove_first (\<lambda>x. l_id x = i) ls)
      = find (\<lambda>x. l_id x = j) ls"
    by (intro find_remove_first_other) auto
  with assms(3) show ?thesis by (simp add: Leave_findById_def)
qed

lemma replaced_pendingI:
  "Leave_findById ls i = Some l \<Longrightarrow> l_status l = Pending \<Longrightarrow> l_id y = i \<Longrightarrow>
   replaced_pending ls i y (replace_first (\<lambda>x. l_id x = i) y ls)"
  by (simp add: replaced_pending_def)

lemma replaced_pending_keeps:
  assumes "replaced_pending ls i y ls'"
    and "Leave_findById ls j = Some lj" "l_status lj \<noteq> Pending"
  shows "Leave_findById ls' j = Some lj"
proof -
  from assms(1) obtain l where l: "Leave_findById ls i = Some l" "l_status l = Pending"
    "l_id y = i" "ls' = replace_first (\<lambda>x. l_id x = i) y ls"
    by (auto simp: replaced_pending_def split: option.splits)
  show ?thesis unfolding l(4) by (rule kept_replace [OF l(1,2,3) assms(2,3)])
qed

lemma replaced_pending_transition:
  assumes "replaced_pending ls i y ls'"
    and "Leave_findById ls j = Some lj" "Leave_findById ls' j = Some lj'"
    and "l_status lj' \<noteq> l_status lj"
  shows "l_status lj = Pending \<and> lj' = y"
proof -
  from assms(1) obtain l where l: "Leave_findById ls i = Some l" "l_status l = Pending"
    "l_id y = i" "ls' = replace_first (\<lambda>x. l_id x = i) y ls"
    by (auto simp: replaced_pending_def split: option.splits)
  show ?thesis
  proof (cases "j = i")
    case True
    have "find (\<lambda>x. l_id x = i) ls \<noteq> None"
      using l(1) by (simp add: Leave_findById_def)
    then have "Leave_findById ls' i = Some y"
      unfolding l(4) Leave_findById_def by (rule find_replace_first) (simp add: l(3))
    with True assms(2,3) l(1,2) show ?thesis by simp
  next
    case False
    then have "find (\<lambda>x. l_id x = j) ls' = find (\<lambda>x. l_id x = j) ls"
      unfolding l(4) using l(3) by (intro find_replace_first_other) auto
    with assms(2,3,4) show ?thesis by (simp add: Leave_findById_def)
  qed
qed

lemma approveLeave_leaves:
  "leaves (snd (approveLeave s i u c now)) = leaves s
   \<or> (\<exists>y. l_status y = Approved
        \<and> replaced_pending (leaves s) i y (leaves (snd (approveLeave s i u c now))))"
proof (cases "Leave_findById (leaves s) i")
  case None
  then show ?thesis by (simp add: approveLeave_def)
next
  case (Some l)
  note i = Leave_findById_id [OF Some]
  show ?thesis
  proof (cases "l_status l = Pending
      \<and> \<not> (case Employee_findOne_email (employees s) (u_email u) of None \<Rightarrow> False
            | Some a \<Rightarrow> l_employeeId l = e_id a)")
    case False
    with Some show ?thesis by (auto simp: approveLeave_def Let_def)
  next
    case True
    let ?y = "leave_pre_save (l\<lparr>l_status := Approved,
        l_approvedBy := map_option e_id (Employee_findOne_email (employees s) (u_email u)),
        l_approvedAt := Some now\<rparr>)"
    from True Some i have e: "leaves (snd (approveLeave s i u c now))
        = replace_first (\<lambda>x. l_id x = i) ?y (leaves s)"
      by (simp add: approveLeave_def Let_def Leave_save_def)
    have "replaced_pending (leaves s) i ?y (leaves (snd (approveLeave s i u c now)))"
      unfolding e using Some True i by (intro replaced_pendingI) (simp, blast, simp)
    moreover have "l_status ?y = Approved" by simp
    ultimately show ?thesis by blast
  qed
qed

lemma rejectLeave_leaves:
  "leaves (snd (rejectLeave s i u c r now)) = leaves s
   \<or> (\<exists>y. l_status y = Rejected
        \<and> replaced_pending (leaves s) i y (leaves (snd (rejectLeave s i u c r now))))"
proof (cases "Leave_findById (leaves s) i")
  case None
  then show ?thesis by (simp add: rejectLeave_def)
next
  case (Some l)
  note i = Leave_findById_id [OF Some]
  show ?thesis
  proof (cases "l_status l = Pending
      \<and> \<not> (case Employee_findOne_email (employees s) (u_email u) of None \<Rightarrow> False
            | Some a \<Rightarrow> l_employeeId l = e_id a)")
    case False
    with Some show ?thesis by (auto simp: rejectLeave_def Let_def)
  next
    case True
    let ?y = "leave_pre_save (l\<lparr>l_status := Rejected,
        l_approvedBy := map_option e_id (Employee_findOne_email (employees s) (u_email u)),
        l_approvedAt := Some now\<rparr>)"
    from True Some i have e: "leaves (snd (rejectLeave s i u c r now))
        = replace_first (\<lambda>x. l_id x = i) ?y (leaves s)"
      by (simp add: rejectLeave_def Let_def Leave_save_def)
    have "replaced_pending (leaves s) i ?y (leaves (snd (rejectLeave s i u c r now)))"
      unfolding e using Some True i by (intro replaced_pendingI) (simp, blast, simp)
    moreover have "l_status ?y = Rejected" by simp
    ultimately show ?thesis by blast
  qed
qed

lemma Leave_apply_update_id:
  assumes "Leave_apply_update b l = Inr l'"
  shows "l_id l' = l_id l"
proof -
  obtain t where t: "(case b_leaveType b of None \<Rightarrow> Some (l_leaveType l)
      | Some lt \<Rightarrow> leave_type_of lt) = Some t"
    using assms by (cases "case b_leaveType b of None \<Rightarrow> Some (l_leaveType l)
      | Some lt \<Rightarrow> leave_type_of lt") (simp_all add: Leave_apply_update_def)
  obtain st where st: "(case b_status b of None \<Rightarrow> Some (l_status l)
      | Some st \<Rightarrow> leave_status_of st) = Some st"
    using assms t by (cases "case b_status b of None \<Rightarrow> Some (l_status l)
      | Some st \<Rightarrow> leave_status_of st") (simp_all add: Leave_apply_update_def)
  obtain r where r: "(case b_reason b of None \<Rightarrow> Some (l_reason l)
      | Some r \<Rightarrow> if trim r = [] then None else Some (trim r)) = Some r"
    using assms t st by (cases "case b_reason b of None \<Rightarrow> Some (l_reason l)
      | Some r \<Rightarrow> if trim r = [] then None else Some (trim r)")
      (simp_all add: Leave_apply_update_def)
  from assms show ?thesis
    unfolding Leave_apply_update_def t st r by (simp only: option.case sum.inject) auto
qed

lemma updateLeave_leaves:
  "leaves (snd (updateLeave s i b)) = leaves s
   \<or> (\<exists>y. replaced_pending (leaves s) i y (leaves (snd (updateLeave s i b))))"
proof (cases "Leave_findById (leaves s) i")
  case None
  then show ?thesis by (simp add: updateLeave_def)
next
  case (Some l)
  note i = Leave_findById_id [OF Some]
  show ?thesis
  proof (cases "Leave_apply_update b l")
    case (Inl e)
    with Some show ?thesis by (simp add: updateLeave_def Leave_findByIdAndUpdate_def)
  next
    case (Inr y)
    show ?thesis
    proof (cases "l_status l = Pending")
      case False
      with Some show ?thesis by (simp add: updateLeave_def)
    next
      case True
      from True Some Inr have e: "leaves (snd (updateLeave s i b))
          = replace_first (\<lambda>x. l_id x = i) y (leaves s)"
        by (simp add: updateLeave_def Leave_findByIdAndUpdate_def)
      have "replaced_pending (leaves s) i y (leaves (snd (updateLeave s i b)))"
        unfolding e using Some True i Leave_apply_update_id [OF Inr]
        by (intro replaced_pendingI) simp_all
      then show ?thesis by blast
    qed
  qed
qed

lemma deleteLeave_leaves:
  "leaves (snd (deleteLeave s i)) = leaves s
   \<or> (\<exists>l. Leave_findById (leaves s) i = Some l \<and> l_status l = Pending
        \<and> leaves (snd (deleteLeave s i)) = remove_first (\<lambda>x. l_id x = i) (leaves s))"
proof (cases "Leave_findById (leaves s) i")
  case None
  then show ?thesis by (simp add: deleteLeave_def)
next
  case (Some l)
  note i = Leave_findById_id [OF Some]
  with Some show ?thesis
    by (cases "l_status l = Pending") (simp_all add: deleteLeave_def Leave_deleteOne_def)
qed

lemma createLeave_leaves:
  "leaves (snd (createLeave s u b)) = leaves s
   \<or> (\<exists>l. leaves (snd (createLeave s u b)) = leaves s @ [l])"
proof (cases "resolve_employeeId (employees s) u (b_employeeId b)")
  case None
  then show ?thesis by (simp add: createLeave_def)
next
  case (Some eid)
  then show ?thesis
    by (cases "Leave_validate (new_ObjectId (map l_id (leaves s))) (b\<lparr>b_employeeId := Some eid\<rparr>)")
       (simp_all add: createLeave_def Leave_create_def Let_def)
qed

lemma leave_step_keeps:
  assumes f: "Leave_findById (leaves s) j = Some lj" and n: "l_status lj \<noteq> Pending"
  shows "Leave_findById (leaves (leave_step s op)) j = Some lj"
proof (cases op)
  case (CreateLeave u b)
  from createLeave_leaves [of s u b] f show ?thesis
    unfolding CreateLeave leave_step.simps
    by (elim disjE exE) (simp_all add: Leave_findById_def find_append_old)
next
  case (UpdateLeave i b)
  from updateLeave_leaves [of s i b] f show ?thesis
    unfolding UpdateLeave leave_step.simps
    by (elim disjE exE) (simp, rule replaced_pending_keeps [OF _ f n])
next
  case (ApproveLeave i u c now)
  from approveLeave_leaves [of s i u c now] f show ?thesis
    unfolding ApproveLeave leave_step.simps
    by (elim disjE exE conjE) (simp, rule replaced_pending_keeps [OF _ f n])
next
  case (RejectLeave i u c r now)
  from rejectLeave_leaves [of s i u c r now] f show ?thesis
    unfolding RejectLeave leave_step.simps
    by (elim disjE exE conjE) (simp, rule replaced_pending_keeps [OF _ f n])
next
  case (DeleteLeave i)
  from deleteLeave_leaves [of s i] f show ?thesis
    unfolding DeleteLeave leave_step.simps
    by (elim disjE exE conjE) (simp, simp add: kept_remove [OF _ _ f n])
qed

lemma leave_run_keeps:
  "Leave_findById (leaves s) j = Some lj \<Longrightarrow> l_status lj \<noteq> Pending \<Longrightarrow>
   Leave_findById (leaves (leave_run s ops)) j = Some lj"
  by (induction ops arbitrary: s) (simp_all add: leave_step_keeps)

lemma approve_transition:
  assumes "Leave_findById (leaves s) j = Some lj"
    and "Leave_findById (leaves (snd (approveLeave s i u c now))) j = Some lj'"
    and "l_status lj' \<noteq> l_status lj"
  shows "l_status lj = Pending \<and> l_status lj' = Approved"
  using approveLeave_leaves [of s i u c now]
proof (elim disjE exE conjE)
  assume "leaves (snd (approveLeave s i u c now)) = leaves s"
  with assms show ?thesis by simp
next
  fix y assume "l_status y = Approved"
    and "replaced_pending (leaves s) i y (leaves (snd (approveLeave s i u c now)))"
  with replaced_pending_transition [OF _ assms] show ?thesis by blast
qed

lemma reject_transition:
  assumes "Leave_findById (leaves s) j = Some lj"
    and "Leave_findById (leaves (snd (rejectLeave s i u c r now))) j = Some lj'"
    and "l_status lj' \<noteq> l_status lj"
  shows "l_status lj = Pending \<and> l_status lj' = Rejected"
  using rejectLeave_leaves [of s i u c r now]
proof (elim disjE exE conjE)
  assume "leaves (snd (rejectLeave s i u c r now)) = leaves s"
  with assms show ?thesis by simp
next
  fix y assume "l_status y = Rejected"
    and "replaced_pending (leaves s) i y (leaves (snd (rejectLeave s i u c r now)))"
  with replaced_pending_transition [OF _ assms] show ?thesis by blast
qed

lemma update_transition:
  assumes "Leave_findById (leaves s) j = Some lj"
    and "Leave_findById (leaves (snd (updateLeave s i b))) j = Some lj'"
    and "l_status lj' \<noteq> l_status lj"
  shows "l_status lj = Pending"
  using updateLeave_leaves [of s i b]
proof (elim disjE exE conjE)
  assume "leaves (snd (updateLeave s i b)) = leaves s"
  with assms show ?thesis by simp
next
  fix y assume "replaced_pending (leaves s) i y (leaves (snd (updateLeave s i b)))"
  with replaced_pending_transition [OF _ assms] show ?thesis by blast
qed

lemma processed_fail:
  assumes "Leave_findById (leaves s) i = Some l" "l_status l \<noteq> Pending"
  shows "updateLeave s i body =
           (Failure 400 ''Cannot update leave request that has been processed'', s)"
    and "approveLeave s i u c now =
           (Failure 400 ''Leave request has already been processed'', s)"
    and "rejectLeave s i u c r now =
           (Failure 400 ''Leave request has already been processed'', s)"
    and "deleteLeave s i =
           (Failure 400 ''Cannot delete leave request that has been processed'', s)"
  using assms by (simp_all add: updateLeave_def approveLeave_def rejectLeave_def deleteLeave_def)

text \<open>
  C1, as stated, fails: \<open>updateLeave\<close> writes every schema path of the request body,
  \<open>status\<close> included, so on a pending request it performs the transition that the body
  names; here pending to cancelled.
\<close>

theorem update_sets_status_counterexample:
  "updateLeave fixture_store 1 cancel_patch =
     (Success 200 (Some (fixture_vacation\<lparr>l_status := Cancelled\<rparr>)),
      fixture_store\<lparr>leaves := [fixture_vacation\<lparr>l_status := Cancelled\<rparr>]\<rparr>)
   \<and> map l_status (leaves fixture_store) = [Pending]
   \<and> map l_status (leaves (snd (updateLeave fixture_store 1 cancel_patch))) = [Cancelled]"
  by code_simp

text \<open>
  C1, amended. For a request whose status is not \<open>pending\<close>, \<open>updateLeave\<close>,
  \<open>approveLeave\<close>, \<open>rejectLeave\<close> and \<open>deleteLeave\<close> fail with 400 (``... has been
  processed'', ``... has already been processed'') and leave the store unchanged; after
  any sequence of create, update, approve, reject and delete requests such a request is
  still there, exactly as it was. Whenever \<open>approveLeave\<close>, \<open>rejectLeave\<close> or \<open>updateLeave\<close>
  changes the status of a request, the request was pending; \<open>approveLeave\<close> leaves it
  approved and \<open>rejectLeave\<close> rejected.
\<close>

theorem processed_requests_are_final:
  "(Leave_findById (leaves s) i = Some l \<and> l_status l \<noteq> Pending \<longrightarrow>
      updateLeave s i body =
        (Failure 400 ''Cannot update leave request that has been processed'', s)
      \<and> approveLeave s i u c now =
        (Failure 400 ''Leave request has already been processed'', s)
      \<and> rejectLeave s i u c r now =
        (Failure 400 ''Leave request has already been processed'', s)
      \<and> deleteLeave s i =
        (Failure 400 ''Cannot delete leave request that has been processed'', s))
   \<and> (Leave_findById (leaves s) j = Some lj \<and> l_status lj \<noteq> Pending \<longrightarrow>
      Leave_findById (leaves (leave_run s ops)) j = Some lj)
   \<and> (Leave_findById (leaves s) j = Some lj
        \<and> Leave_findById (leaves (snd (approveLeave s i u c now))) j = Some lj'
        \<and> l_status lj' \<noteq> l_status lj \<longrightarrow>
      l_status lj = Pending \<and> l_status lj' = Approved)
   \<and> (Leave_findById (leaves s) j = Some lj
        \<and> Leave_findById (leaves (snd (rejectLeave s i u c r now))) j = Some lj'
        \<and> l_status lj' \<noteq> l_status lj \<longrightarrow>
      l_status lj = Pending \<and> l_status lj' = Rejected)
   \<and> (Leave_findById (leaves s) j = Some lj
        \<and> Leave_findById (leaves (snd (updateLeave s i body))) j = Some lj'
        \<and> l_status lj' \<noteq> l_status lj \<longrightarrow>
      l_status lj = Pending)"
proof (intro conjI impI)
  assume h: "Leave_findById (leaves s) i = Some l \<and> l_status l \<noteq> Pending"
  then have f: "Leave_findById (leaves s) i = Some l" and n: "l_status l \<noteq> Pending"
    by simp_all
  show "updateLeave s i body =
        (Failure 400 ''Cannot update leave request that has been processed'', s)"
    by (rule processed_fail(1) [OF f n])
  show "approveLeave s i u c now =
        (Failure 400 ''Leave request has already been processed'', s)"
    by (rule processed_fail(2) [OF f n])
  show "rejectLeave s i u c r now =
        (Failure 400 ''Leave request has already been processed'', s)"
    by (rule processed_fail(3) [OF f n])
  show "deleteLeave s i =
        (Failure 400 ''Cannot delete leave request that has been processed'', s)"
    by (rule processed_fail(4) [OF f n])
next
  assume "Leave_findById (leaves s) j = Some lj \<and> l_status lj \<noteq> Pending"
  then show "Leave_findById (leaves (leave_run s ops)) j = Some lj"
    by (simp add: leave_run_keeps)
next
  assume h: "Leave_findById (leaves s) j = Some lj
        \<and> Leave_findById (leaves (snd (approveLeave s i u c now))) j = Some lj'
        \<and> l_status lj' \<noteq> l_status lj"
  then show "l_status lj = Pending" "l_status lj' = Approved"
    using approve_transition [of s j lj i u c now lj'] by blast+
next
  assume h: "Leave_findById (leaves s) j = Some lj
        \<and> Leave_findById (leaves (snd (rejectLeave s i u c r now))) j = Some lj'
        \<and> l_status lj' \<noteq> l_status lj"
  then show "l_status lj = Pending" "l_status lj' = Rejected"
    using reject_transition [of s j lj i u c r now lj'] by blast+
next
  assume h: "Leave_findById (leaves s) j = Some lj
        \<and> Leave_findById (leaves (snd (updateLeave s i body))) j = Some lj'
        \<and> l_status lj' \<noteq> l_status lj"
  then show "l_status lj = Pending"
    using update_transition [of s j lj i body lj'] by blast
qed

theorem processed_requests_are_final_witness:
  "Leave_findById (leaves approved_store) 1 = Some approved_vacation
   \<and> l_status approved_vacation \<noteq> Pending
   \<and> updateLeave approved_store 1 cancel_patch =
        (Failure 400 ''Cannot update leave request that has been processed'', approved_store)
   \<and> approveLeave approved_store 1 fixture_admin None 1705100000000 =
        (Failure 400 ''Leave request has already been processed'', approved_store)
   \<and> rejectLeave approved_store 1 fixture_admin None None 1705100000000 =
        (Failure 400 ''Leave request has already been processed'', approved_store)
   \<and> deleteLeave approved_store 1 =
        (Failure 400 ''Cannot delete leave request that has been processed'', approved_store)
   \<and> Leave_findById (leaves (leave_run approved_store all_operations)) 1 = Some approved_vacation
   \<and> Leave_findById (leaves fixture_store) 1 = Some fixture_vacation
   \<and> Leave_findById (leaves (snd (approveLeave fixture_store 1 fixture_admin None 1705000000000))) 1
        = Some approved_vacation
   \<and> l_status approved_vacation \<noteq> l_status fixture_vacation
   \<and> l_status fixture_vacation = Pending \<and> l_status approved_vacation = Approved
   \<and> Leave_findById
        (leaves (snd (rejectLeave fixture_store 1 fixture_admin None None 1705000000000))) 1
        = Some rejected_vacation
   \<and> l_status rejected_vacation \<noteq> l_status fixture_vacation
   \<and> l_status rejected_vacation = Rejected
   \<and> Leave_findById (leaves (snd (updateLeave fixture_store 1 cancel_patch))) 1
        = Some cancelled_vacation
   \<and> l_status cancelled_vacation \<noteq> l_status fixture_vacation"
proof -
  have f: "Leave_findById (leaves approved_store) 1 = Some approved_vacation"
    by code_simp
  have n: "l_status approved_vacation \<noteq> Pending"
    by (simp add: approved_vacation_def)
  have f0: "Leave_findById (leaves fixture_store) 1 = Some fixture_vacation"
    by code_simp
  have fa: "Leave_findById (leaves (snd (approveLeave fixture_store 1 fixture_admin None 1705000000000))) 1
        = Some approved_vacation"
    by code_simp
  have fr: "Leave_findById
        (leaves (snd (rejectLeave fixture_store 1 fixture_admin None None 1705000000000))) 1
        = Some rejected_vacation"
    by code_simp
  have fu: "Leave_findById (leaves (snd (updateLeave fixture_store 1 cancel_patch))) 1
        = Some cancelled_vacation"
    by code_simp
  have d: "l_status approved_vacation \<noteq> l_status fixture_vacation"
    "l_status rejected_vacation \<noteq> l_status fixture_vacation"
    "l_status cancelled_vacation \<noteq> l_status fixture_vacation"
    by (simp_all add: approved_vacation_def rejected_vacation_def cancelled_vacation_def
          fixture_vacation_def)
  note t1 = processed_requests_are_final [where s = approved_store and i = 1
      and l = approved_vacation and body = cancel_patch and u = fixture_admin and c = None
      and r = None and now = 1705100000000 and j = 1 and lj = approved_vacation
      and ops = all_operations]
  from t1 f n have 1: "updateLeave approved_store 1 cancel_patch =
        (Failure 400 ''Cannot update leave request that has been processed'', approved_store)"
    "approveLeave approved_store 1 fixture_admin None 1705100000000 =
        (Failure 400 ''Leave request has already been processed'', approved_store)"
    "rejectLeave approved_store 1 fixture_admin None None 1705100000000 =
        (Failure 400 ''Leave request has already been processed'', approved_store)"
    "deleteLeave approved_store 1 =
        (Failure 400 ''Cannot delete leave request that has been processed'', approved_store)"
    "Leave_findById (leaves (leave_run approved_store all_operations)) 1 = Some approved_vacation"
    by blast+
  note t2 = processed_requests_are_final [where s = fixture_store and i = 1
      and body = cancel_patch and u = fixture_admin and c = None
      and r = None and now = 1705000000000 and j = 1 and lj = fixture_vacation]
  from t2 [where lj' = approved_vacation] f0 fa d(1)
  have 2: "l_status fixture_vacation = Pending" "l_status approved_vacation = Approved"
    by blast+
  from t2 [where lj' = rejected_vacation] f0 fr d(2)
  have 3: "l_status rejected_vacation = Rejected"
    by blast
  from t2 [where lj' = cancelled_vacation] f0 fu d(3)
  have 4: "l_status fixture_vacation = Pending"
    by blast
  show ?thesis
    using f n 1 f0 fa d 2 fr 3 fu by (simp only: simp_thms)
qed

subsection \<open>Approval: what is recorded, and the leave balance\<close>

lemma leaveTypeKey_name: "leaveTypeKey t = leave_type_name t"
  by (cases t) (simp_all add: leaveTypeKey_def toLowerCase_def)

lemma deduct_leave_balance_cases:
  "deduct_leave_balance es l =
     (case Employee_findById es (l_employeeId l) of
        None \<Rightarrow> es
      | Some e \<Rightarrow>
          (case e_leaveBalance e of
             None \<Rightarrow> es
           | Some b \<Rightarrow>
               (case leaveBalance_get b (leave_type_name (l_leaveType l)) of
                  None \<Rightarrow> es
                | Some n \<Rightarrow>
                    replace_first (\<lambda>x. e_id x = e_id e)
                      (e\<lparr>e_leaveBalance := Some (leaveBalance_set b (leave_type_name (l_leaveType l))
                                                   (n - l_totalDays l))\<rparr>) es)))"
  by (simp add: deduct_leave_balance_def Let_def leaveTypeKey_name Employee_save_def
        split: option.splits)

lemma approveLeave_effect:
  assumes f: "Leave_findById (leaves s) i = Some l" and p: "l_status l = Pending"
    and a: "map_option e_id (Employee_findOne_email (employees s) (u_email u)) \<noteq> Some (l_employeeId l)"
  shows "approveLeave s i u c now =
     (Success 200 (Some (leave_pre_save
          (l\<lparr>l_status := Approved,
             l_approvedBy := map_option e_id (Employee_findOne_email (employees s) (u_email u)),
             l_approvedAt := Some now\<rparr>))),
      s\<lparr>leaves := replace_first (\<lambda>x. l_id x = i)
                    (leave_pre_save
                       (l\<lparr>l_status := Approved,
                          l_approvedBy := map_option e_id (Employee_findOne_email (employees s) (u_email u)),
                          l_approvedAt := Some now\<rparr>))
                    (leaves s),
        employees := deduct_leave_balance (employees s)
                    (leave_pre_save
                       (l\<lparr>l_status := Approved,
                          l_approvedBy := map_option e_id (Employee_findOne_email (employees s) (u_email u)),
                          l_approvedAt := Some now\<rparr>))\<rparr>)"
proof -
  let ?y = "leave_pre_save
                       (l\<lparr>l_status := Approved,
                          l_approvedBy := map_option e_id (Employee_findOne_email (employees s) (u_email u)),
                          l_approvedAt := Some now\<rparr>)"
  have i: "l_id l = i" using f by (rule Leave_findById_id)
  have "find (\<lambda>x. l_id x = i) (leaves s) \<noteq> None"
    using f by (simp add: Leave_findById_def)
  then have r: "Leave_findById (replace_first (\<lambda>x. l_id x = i) ?y (leaves s)) i = Some ?y"
    unfolding Leave_findById_def by (rule find_replace_first) (simp add: i)
  have n: "\<not> (case Employee_findOne_email (employees s) (u_email u) of None \<Rightarrow> False
      | Some a \<Rightarrow> l_employeeId l = e_id a)"
    using a by (cases "Employee_findOne_email (employees s) (u_email u)") auto
  show ?thesis
    unfolding approveLeave_def using f p n i r by (simp add: Let_def Leave_save_def)
qed

lemma rejectLeave_keeps_balances: "employees (snd (rejectLeave s i u c r now)) = employees s"
proof (cases "Leave_findById (leaves s) i")
  case None
  then show ?thesis by (simp add: rejectLeave_def)
next
  case (Some l)
  then show ?thesis
    by (cases "l_status l = Pending
      \<and> \<not> (case Employee_findOne_email (employees s) (u_email u) of None \<Rightarrow> False
            | Some a \<Rightarrow> l_employeeId l = e_id a)")
       (auto simp: rejectLeave_def Let_def Leave_save_def)
qed

lemma fixture_approve_with_comments:
  "approveLeave fixture_store 1 fixture_admin (Some ''Approved'') 1705000000000 =
     (Success 200 (Some approved_vacation), approved_store)"
  by code_simp

lemma Employee_findById_id: "Employee_findById es i = Some e \<Longrightarrow> e_id e = i"
  unfolding Employee_findById_def by (auto dest: find_Some_iff [THEN iffD1])

lemma approveLeave_decrements_balance:
  assumes f: "Leave_findById (leaves s) i = Some l" and p: "l_status l = Pending"
    and a: "map_option e_id (Employee_findOne_email (employees s) (u_email u)) \<noteq> Some (l_employeeId l)"
    and e: "Employee_findById (employees s) (l_employeeId l) = Some e"
    and b: "e_leaveBalance e = Some b"
    and g: "leaveBalance_get b (leave_type_name (l_leaveType l)) = Some n"
  shows "Employee_findById (employees (snd (approveLeave s i u c now))) (l_employeeId l) =
     Some (e\<lparr>e_leaveBalance :=
              Some (leaveBalance_set b (leave_type_name (l_leaveType l))
                      (n - spec_totalDays (l_startDate l) (l_endDate l)))\<rparr>)"
proof -
  have i: "e_id e = l_employeeId l" using e by (rule Employee_findById_id)
  have "find (\<lambda>x. e_id x = l_employeeId l) (employees s) \<noteq> None"
    using e by (simp add: Employee_findById_def)
  then have "find (\<lambda>x. e_id x = l_employeeId l)
      (replace_first (\<lambda>x. e_id x = l_employeeId l)
         (e\<lparr>e_leaveBalance :=
              Some (leaveBalance_set b (leave_type_name (l_leaveType l))
                      (n - spec_totalDays (l_startDate l) (l_endDate l)))\<rparr>) (employees s))
      = Some (e\<lparr>e_leaveBalance :=
              Some (leaveBalance_set b (leave_type_name (l_leaveType l))
                      (n - spec_totalDays (l_startDate l) (l_endDate l)))\<rparr>)"
    by (rule find_replace_first) (simp add: i)
  then show ?thesis
    unfolding approveLeave_effect [OF f p a] deduct_leave_balance_cases
    using e b g i by (simp add: Employee_findById_def leave_pre_save_totalDays)
qed

lemma approveLeave_skips_deduction:
  assumes f: "Leave_findById (leaves s) i = Some l" and p: "l_status l = Pending"
    and a: "map_option e_id (Employee_findOne_email (employees s) (u_email u)) \<noteq> Some (l_employeeId l)"
    and n: "Employee_findById (employees s) (l_employeeId l) = None
            \<or> Option.bind (Employee_findById (employees s) (l_employeeId l)) e_leaveBalance = None
            \<or> l_leaveType l = Maternity \<or> l_leaveType l = Paternity"
  shows "employees (snd (approveLeave s i u c now)) = employees s
         \<and> http_status (fst (approveLeave s i u c now)) = 200"
  unfolding approveLeave_effect [OF f p a] deduct_leave_balance_cases
  using n by (auto split: option.splits)

text \<open>
  C3. The approver's comments are not recorded: \<open>approveLeave\<close> and \<open>rejectLeave\<close> give
  the same response and the same store whatever comments (or reason) the request carries.
  On the fixture of \<^verbatim>\<open>tests/leave.test.js\<close>, approving with the comment ``Approved''
  stores and returns a request whose paths are the ones listed, none of them the comment.
  The rest of C3 holds and is proved above: status, approver id and timestamp in
  \<open>approveLeave_effect\<close>, the deduction in \<open>approveLeave_decrements_balance\<close> and
  \<open>approveLeave_skips_deduction\<close>, the untouched balances of a rejection in
  \<open>rejectLeave_keeps_balances\<close>.
\<close>

theorem approver_comments_not_recorded:
  "approveLeave s i u c now = approveLeave s i u None now
   \<and> rejectLeave s i u c r now = rejectLeave s i u None None now
   \<and> approveLeave fixture_store 1 fixture_admin (Some ''Approved'') 1705000000000 =
       (Success 200 (Some approved_vacation), approved_store)
   \<and> approved_vacation =
       \<lparr>l_id = 1, l_employeeId = 1, l_leaveType = Annual, l_startDate = 1705276800000,
        l_endDate = 1705449600000, l_totalDays = 3, l_reason = ''Vacation'',
        l_status = Approved, l_approvedBy = None, l_approvedAt = Some 1705000000000,
        l_rejectionReason = None\<rparr>"
proof (intro conjI)
  show "approveLeave s i u c now = approveLeave s i u None now"
    by (simp add: approveLeave_def)
  show "rejectLeave s i u c r now = rejectLeave s i u None None now"
    by (simp add: rejectLeave_def)
  show "approveLeave fixture_store 1 fixture_admin (Some ''Approved'') 1705000000000 =
       (Success 200 (Some approved_vacation), approved_store)"
    by (rule fixture_approve_with_comments)
  show "approved_vacation =
       \<lparr>l_id = 1, l_employeeId = 1, l_leaveType = Annual, l_startDate = 1705276800000,
        l_endDate = 1705449600000, l_totalDays = 3, l_reason = ''Vacation'',
        l_status = Approved, l_approvedBy = None, l_approvedAt = Some 1705000000000,
        l_rejectionReason = None\<rparr>"
    by (simp add: approved_vacation_def fixture_vacation_def)
qed

subsection \<open>Updating a request\<close>

lemma fixture_extend:
  "updateLeave fixture_store 1 extend_patch =
     (Success 200 (Some extended_vacation), fixture_store\<lparr>leaves := [extended_vacation]\<rparr>)"
  by code_simp

lemma fixture_set_totalDays:
  "updateLeave fixture_store 1 totalDays_patch =
     (Success 200 (Some (fixture_vacation\<lparr>l_totalDays := 99\<rparr>)),
      fixture_store\<lparr>leaves := [fixture_vacation\<lparr>l_totalDays := 99\<rparr>]\<rparr>)"
  by code_simp

text \<open>
  C4. \<open>updateLeave\<close> does not recompute \<open>totalDays\<close>: moving the end date of the pending
  three-day request from 17 to 20 January 2024 succeeds and stores \<open>totalDays = 3\<close> where
  the dates give 6, and a body with \<open>totalDays = 99\<close> stores 99 where the dates give 3.
  On create the value is recomputed, by the pre-save hook.
\<close>

theorem update_does_not_recompute_totalDays:
  "updateLeave fixture_store 1 extend_patch =
     (Success 200 (Some extended_vacation), fixture_store\<lparr>leaves := [extended_vacation]\<rparr>)
   \<and> l_totalDays extended_vacation = 3
   \<and> spec_totalDays (l_startDate extended_vacation) (l_endDate extended_vacation) = 6
   \<and> updateLeave fixture_store 1 totalDays_patch =
     (Success 200 (Some (fixture_vacation\<lparr>l_totalDays := 99\<rparr>)),
      fixture_store\<lparr>leaves := [fixture_vacation\<lparr>l_totalDays := 99\<rparr>]\<rparr>)
   \<and> spec_totalDays (l_startDate (fixture_vacation\<lparr>l_totalDays := 99\<rparr>))
        (l_endDate (fixture_vacation\<lparr>l_totalDays := 99\<rparr>)) = 3"
proof (intro conjI)
  show "l_totalDays extended_vacation = 3"
    by (simp add: extended_vacation_def fixture_vacation_def)
  show "spec_totalDays (l_startDate extended_vacation) (l_endDate extended_vacation) = 6"
    by (simp add: extended_vacation_def fixture_vacation_def spec_totalDays_def)
  show "spec_totalDays (l_startDate (fixture_vacation\<lparr>l_totalDays := 99\<rparr>))
        (l_endDate (fixture_vacation\<lparr>l_totalDays := 99\<rparr>)) = 3"
    by (simp add: fixture_vacation_def spec_totalDays_def)
qed (rule fixture_extend fixture_set_totalDays)+

end
